theory Spec2Isabelle
  imports Main
begin

section \<open>Values shared by the route handlers\<close>

text \<open>
  A parsed JSON value, as \<open>request.json()\<close> resolves it. The property list of an object
  is the parsed object's own properties; \<open>map_of\<close> reads one of them. Numbers are kept as
  integers: the handlers modelled here only compare a value with a string.
\<close>

datatype json =
    JNull
  | JBool bool
  | JNum int
  | JStr string
  | JArr "json list"
  | JObj "(string \<times> json) list"

text \<open>
  An awaited call of a collaborator either resolves to a value or rejects with an error;
  the string is the error's message (\<open>error instanceof Error ? error.message : String(error)\<close>).
\<close>

datatype 'a outcome = Throws string | Returns 'a

record user =
  user_id :: string
  username :: string
  role :: string
  permissions :: "string list"

record session =
  session_user :: user

datatype audit_action = CRL_GENERATED | CA_DELETED | CERTIFICATE_ISSUED | CERTIFICATE_REVOKED

record audit_entry =
  action :: audit_action
  description :: string
  userId :: string
  audit_username :: string
  metadata :: "(string \<times> json) list"

record 'b response =
  status :: nat
  body :: 'b

text \<open>
  Modelled from the spec: \<open>AuditService.log\<close> (\<open>@/lib/audit\<close>) is not among the sources.
  It creates one AuditLog row for the entry it is given, or rejects and creates none; which
  of the two happens is decided by the sink, here the predicate \<open>accepts\<close>.
\<close>

definition AuditService_log ::
  "(audit_entry \<Rightarrow> bool) \<Rightarrow> audit_entry \<Rightarrow> audit_entry list \<Rightarrow> audit_entry list outcome" where
  "AuditService_log accepts e rows =
     (if accepts e then Returns (rows @ [e]) else Throws ''audit log rejected'')"

section \<open>POST /api/crl/generate\<close>

text \<open>
  The collaborators of the handler: the session lookup and the body of the request
  (\<open>'r\<close> is the request), the two generators of \<open>CAService\<close>, the audit sink and the clock
  (\<open>new Date().toISOString()\<close>). The generators receive \<open>caId\<close> as the body gives it,
  \<open>None\<close> being \<open>undefined\<close>.
\<close>

record 'r crl_deps =
  getApiSession :: "'r \<Rightarrow> session option outcome"
  requestJson :: "'r \<Rightarrow> json outcome"
  generateCRL :: "json option \<Rightarrow> string outcome"
  generateDeltaCRL :: "json option \<Rightarrow> string outcome"
  auditAccepts :: "audit_entry \<Rightarrow> bool"
  nowISO :: string

datatype crl_call = GenerateCRL "json option" | GenerateDeltaCRL "json option"

text \<open>
  Reading a property while destructuring: only an object carries \<open>type\<close> or \<open>caId\<close>;
  booleans, numbers, strings and arrays have neither, so the read is \<open>undefined\<close>.
\<close>

fun getProp :: "json \<Rightarrow> string \<Rightarrow> json option" where
  "getProp (JObj kvs) k = map_of kvs k"
| "getProp _ k = None"

text \<open>
  \<open>const { type = 'full', caId } = await request.json()\<close>: reading \<open>type\<close> of \<open>null\<close>
  is a TypeError, whose message goes into the 500 answer and the audit row; the default
  replaces \<open>undefined\<close> only, an explicit \<open>null\<close> stays.
\<close>

definition destructure :: "json \<Rightarrow> (json \<times> json option) outcome" where
  "destructure b =
     (if b = JNull then Throws ''Cannot read properties of null (reading 'type')''
      else Returns ((case getProp b ''type'' of None \<Rightarrow> JStr ''full'' | Some v \<Rightarrow> v),
                    getProp b ''caId''))"

definition errorBody :: "string \<Rightarrow> json" where
  "errorBody msg = JObj [(''error'', JStr msg)]"

definition successEntry :: "'r crl_deps \<Rightarrow> session \<Rightarrow> string \<Rightarrow> json \<Rightarrow> audit_entry" where
  "successEntry deps s descr ty =
     \<lparr>action = CRL_GENERATED, description = descr,
      userId = user_id (session_user s), audit_username = username (session_user s),
      metadata = [(''crlType'', ty), (''timestamp'', JStr (nowISO deps))]\<rparr>"

definition failureEntry :: "'r crl_deps \<Rightarrow> session \<Rightarrow> string \<Rightarrow> audit_entry" where
  "failureEntry deps s msg =
     \<lparr>action = CRL_GENERATED, description = ''CRL generation failed: '' @ msg,
      userId = user_id (session_user s), audit_username = username (session_user s),
      metadata = [(''error'', JStr msg), (''timestamp'', JStr (nowISO deps))]\<rparr>"

text \<open>
  The inner \<open>try\<close> of the \<open>catch\<close> block: the session is looked up again and, when there
  is one, the failure is logged; an error of either step is swallowed.
\<close>

definition logFailure :: "'r crl_deps \<Rightarrow> 'r \<Rightarrow> string \<Rightarrow> audit_entry list \<Rightarrow> audit_entry list" where
  "logFailure deps req msg rows =
     (case getApiSession deps req of
        Throws _ \<Rightarrow> rows
      | Returns None \<Rightarrow> rows
      | Returns (Some s) \<Rightarrow>
          (case AuditService_log (auditAccepts deps) (failureEntry deps s msg) rows of
             Throws _ \<Rightarrow> rows
           | Returns rows' \<Rightarrow> rows'))"

text \<open>The \<open>catch\<close> block: log the failure, answer 500 with the error's message.\<close>

definition caught ::
  "'r crl_deps \<Rightarrow> 'r \<Rightarrow> string \<Rightarrow> audit_entry list \<Rightarrow> crl_call list
     \<Rightarrow> json response \<times> audit_entry list \<times> crl_call list" where
  "caught deps req msg rows calls =
     (\<lparr>status = 500,
       body = JObj [(''error'', JStr ''Failed to generate CRL''), (''details'', JStr msg)]\<rparr>,
      logFailure deps req msg rows, calls)"

text \<open>
  The handler. It returns the response, the AuditLog rows after the run (the rows the
  handler itself writes are appended to \<open>rows\<close>) and the generator calls it made.
\<close>

definition POST ::
  "'r crl_deps \<Rightarrow> 'r \<Rightarrow> audit_entry list \<Rightarrow> json response \<times> audit_entry list \<times> crl_call list" where
  "POST deps req rows =
     (case getApiSession deps req of
        Throws msg \<Rightarrow> caught deps req msg rows []
      | Returns None \<Rightarrow> (\<lparr>status = 401, body = errorBody ''Unauthorized''\<rparr>, rows, [])
      | Returns (Some s) \<Rightarrow>
          if ''crl:manage'' \<notin> set (permissions (session_user s))
          then (\<lparr>status = 403, body = errorBody ''Insufficient permissions''\<rparr>, rows, [])
          else
            (case requestJson deps req of
               Throws msg \<Rightarrow> caught deps req msg rows []
             | Returns b \<Rightarrow>
                 (case destructure b of
                    Throws msg \<Rightarrow> caught deps req msg rows []
                  | Returns (ty, caId) \<Rightarrow>
                      let (generated, descr, call) =
                            (if ty = JStr ''delta''
                             then (generateDeltaCRL deps caId,
                                   ''Delta CRL generated successfully'', GenerateDeltaCRL caId)
                             else (generateCRL deps caId,
                                   ''Full CRL generated successfully'', GenerateCRL caId))
                      in (case generated of
                            Throws msg \<Rightarrow> caught deps req msg rows [call]
                          | Returns crl \<Rightarrow>
                              (case AuditService_log (auditAccepts deps)
                                      (successEntry deps s descr ty) rows of
                                 Throws msg \<Rightarrow> caught deps req msg rows [call]
                               | Returns rows' \<Rightarrow>
                                   (\<lparr>status = 200,
                                     body = JObj [(''success'', JBool True),
                                                  (''message'', JStr descr),
                                                  (''crl'', JStr crl), (''type'', ty)]\<rparr>,
                                    rows', [call]))))))"

section \<open>The store\<close>

text \<open>
  The tables the CA route reads and deletes from. The Prisma schema is not among the
  sources: the rows carry the fields the handlers and the data model of the
  specification name. Times are milliseconds since the epoch.
\<close>

datatype ca_status = CA_PENDING | CA_ACTIVE | CA_EXPIRED | CA_REVOKED

record ca_config =
  ca_id :: string
  ca_name :: string
  subjectDN :: string
  ca_status :: ca_status
  keyAlgorithm :: string
  keySize :: "int option"
  curve :: "string option"
  encryptedPrivateKey :: string
  certificate :: "string option"
  certificateChain :: "string option"
  ca_validFrom :: "int option"
  ca_validTo :: "int option"
  crlNumber :: int
  crlDistributionPoint :: "string option"
  ocspUrl :: "string option"

datatype cert_status = ACTIVE | REVOKED | EXPIRED

record certificate_row =
  cert_id :: string
  serialNumber :: string
  commonName :: string
  subjectAltNames :: "string list"
  publicKey :: string
  validFrom :: int
  validTo :: int
  cert_status :: cert_status
  issuedById :: string
  caId :: string

datatype revocation_reason =
    UNSPECIFIED | KEY_COMPROMISE | CA_COMPROMISE | AFFILIATION_CHANGED
  | SUPERSEDED | CESSATION_OF_OPERATION | CERTIFICATE_HOLD

record certificate_revocation =
  certificateId :: string
  reason :: revocation_reason
  revokedAt :: int
  revokedById :: string

record crl_row =
  crl_caId :: string
  crl_number :: int
  crl_pem :: string

record store =
  caConfigs :: "ca_config list"
  certificates :: "certificate_row list"
  certificateRevocations :: "certificate_revocation list"
  crls :: "crl_row list"
  auditLogs :: "audit_entry list"

text \<open>\<open>findUnique({ where: { id } })\<close>: the row with that id, or \<open>null\<close>.\<close>

definition findCA :: "store \<Rightarrow> string \<Rightarrow> ca_config option" where
  "findCA st i = find (\<lambda>ca. ca_id ca = i) (caConfigs st)"

definition findCertificate :: "store \<Rightarrow> string \<Rightarrow> certificate_row option" where
  "findCertificate st i = find (\<lambda>c. cert_id c = i) (certificates st)"

section \<open>GET and DELETE /api/ca/[id]\<close>

text \<open>
  What the handler reads of a certificate parsed by \<open>forge.pki.certificateFromPem\<close>:
  the value of the CN field of subject and issuer (\<open>None\<close> when \<open>getField('CN')\<close> finds
  none), the validity and \<open>publicKey?.type\<close>.
\<close>

record forge_certificate =
  subjectCNValue :: "string option"
  issuerCNValue :: "string option"
  notBefore :: int
  notAfter :: int
  publicKeyType :: "string option"

record ca_deps =
  getServerSession :: "session option outcome"
  certificateFromPem :: "string \<Rightarrow> forge_certificate outcome"
  ca_auditAccepts :: "audit_entry \<Rightarrow> bool"

record cert_info =
  ci_subjectCN :: "string option"
  ci_issuerCN :: "string option"
  ci_selfSigned :: "bool option"
  ci_notBefore :: int
  ci_notAfter :: int
  ci_publicKeyType :: "string option"

record chain_entry =
  ce_subjectCN :: "string option"
  ce_issuerCN :: "string option"
  ce_notBefore :: int
  ce_notAfter :: int

record chain_info =
  count :: nat
  entries :: "chain_entry list"
  rootCN :: "string option"

record ca_details =
  d_id :: string
  d_name :: string
  d_subjectDN :: string
  d_status :: ca_status
  d_keyAlgorithm :: string
  d_keySize :: "int option"
  d_curve :: "string option"
  d_validFrom :: "int option"
  d_validTo :: "int option"
  d_crlNumber :: int
  d_crlDistributionPoint :: "string option"
  d_ocspUrl :: "string option"
  hasCertificate :: bool
  hasCertificateChain :: bool
  certificateInfo :: "cert_info option"
  certificateChainInfo :: "chain_info option"

datatype ca_body = ErrorBody string | SuccessBody | DetailsBody ca_details

text \<open>
  Truthiness of a nullable string (\<open>None\<close> is \<open>null\<close> or \<open>undefined\<close>): the empty string
  is falsy. \<open>orNull v\<close> is \<open>v || null\<close>, \<open>orElse a b\<close> is \<open>a || b\<close>.
\<close>

definition truthy :: "string option \<Rightarrow> bool" where
  "truthy v = (case v of None \<Rightarrow> False | Some s \<Rightarrow> s \<noteq> [])"

definition orElse :: "string option \<Rightarrow> string option \<Rightarrow> string option" where
  "orElse a b = (if truthy a then a else b)"

definition orNull :: "string option \<Rightarrow> string option" where
  "orNull v = orElse v None"

text \<open>
  \<open>certInfo\<close>: computed when \<open>ca.certificate\<close> is truthy; the surrounding \<open>try\<close> has an
  empty \<open>catch\<close>, so a certificate that does not parse leaves \<open>certInfo\<close> at \<open>null\<close>.
  \<open>selfSigned\<close> is \<open>subjectCN && issuerCN && subjectCN === issuerCN\<close>, which is \<open>null\<close>
  when one of the names is.
\<close>

definition certInfoOf :: "ca_deps \<Rightarrow> ca_config \<Rightarrow> cert_info option" where
  "certInfoOf deps ca =
     (if truthy (certificate ca) then
        (case certificateFromPem deps (the (certificate ca)) of
           Throws _ \<Rightarrow> None
         | Returns cert \<Rightarrow>
             let subjectCN = orNull (subjectCNValue cert);
                 issuerCN = orNull (issuerCNValue cert)
             in Some \<lparr>ci_subjectCN = subjectCN, ci_issuerCN = issuerCN,
                      ci_selfSigned =
                        (case subjectCN of None \<Rightarrow> None
                         | Some a \<Rightarrow> (case issuerCN of None \<Rightarrow> None | Some b \<Rightarrow> Some (a = b))),
                      ci_notBefore = notBefore cert, ci_notAfter = notAfter cert,
                      ci_publicKeyType = orNull (publicKeyType cert)\<rparr>)
      else None)"

text \<open>
  The blocks matched by
  \<open>/-----BEGIN CERTIFICATE-----[\s\S]*?-----END CERTIFICATE-----/g\<close>: at the leftmost
  position where the opening line matches, the lazy \<open>[\s\S]*?\<close> stops at the first
  closing line; the search goes on after the match, or one character further when
  no closing line follows.
\<close>

definition pemBegin :: string where
  "pemBegin = ''-----BEGIN CERTIFICATE-----''"

definition pemEnd :: string where
  "pemEnd = ''-----END CERTIFICATE-----''"

fun splitAtFirst :: "string \<Rightarrow> string \<Rightarrow> (string \<times> string) option" where
  "splitAtFirst pat [] = (if pat = [] then Some ([], []) else None)"
| "splitAtFirst pat (c # cs) =
     (if take (length pat) (c # cs) = pat then Some ([], drop (length pat) (c # cs))
      else map_option (\<lambda>(a, b). (c # a, b)) (splitAtFirst pat cs))"

lemma splitAtFirst_length:
  "splitAtFirst pat s = Some (a, b) \<Longrightarrow> length b \<le> length s"
proof (induction s arbitrary: a b)
  case Nil
  then show ?case by (simp split: if_splits)
next
  case (Cons c cs)
  show ?case
  proof (cases "take (length pat) (c # cs) = pat")
    case True
    with Cons.prems show ?thesis by auto
  next
    case False
    with Cons.prems obtain a' where "splitAtFirst pat cs = Some (a', b)"
      by auto
    from Cons.IH [OF this] show ?thesis by simp
  qed
qed

function matchBlocks :: "string \<Rightarrow> string list" where
  "matchBlocks [] = []"
| "matchBlocks (c # cs) =
     (if take (length pemBegin) (c # cs) = pemBegin then
        (case splitAtFirst pemEnd (drop (length pemBegin) (c # cs)) of
           Some (inner, rest) \<Rightarrow> (pemBegin @ inner @ pemEnd) # matchBlocks rest
         | None \<Rightarrow> matchBlocks cs)
      else matchBlocks cs)"
  by pat_completeness auto
termination
proof (relation "measure length")
  fix c cs x2 inner rest
  assume "splitAtFirst pemEnd (drop (length pemBegin) (c # cs)) = Some x2"
    and "(inner, rest) = x2"
  then have "length rest \<le> length (drop (length pemBegin) (c # cs))"
    using splitAtFirst_length by metis
  then show "(rest, c # cs) \<in> measure length"
    by (simp add: pemBegin_def)
qed auto

text \<open>
  \<open>chainInfo\<close>: every block is parsed on its own; a block that does not parse maps to
  \<open>null\<close> and \<open>filter(Boolean)\<close> drops it. The root is the last parsed entry.
\<close>

definition chainEntryOf :: "ca_deps \<Rightarrow> string \<Rightarrow> chain_entry option" where
  "chainEntryOf deps b =
     (case certificateFromPem deps b of
        Throws _ \<Rightarrow> None
      | Returns c \<Rightarrow>
          Some \<lparr>ce_subjectCN = orNull (subjectCNValue c), ce_issuerCN = orNull (issuerCNValue c),
                ce_notBefore = notBefore c, ce_notAfter = notAfter c\<rparr>)"

definition chainInfoOf :: "ca_deps \<Rightarrow> ca_config \<Rightarrow> chain_info option" where
  "chainInfoOf deps ca =
     (if truthy (certificateChain ca) then
        let blocks = matchBlocks (the (certificateChain ca));
            parsed = List.map_filter (chainEntryOf deps) blocks
        in Some \<lparr>count = length parsed, entries = parsed,
                 rootCN = (if parsed = [] then None
                           else orElse (ce_issuerCN (last parsed))
                                  (orElse (ce_subjectCN (last parsed)) None))\<rparr>
      else None)"

definition detailsOf :: "ca_deps \<Rightarrow> ca_config \<Rightarrow> ca_details" where
  "detailsOf deps ca =
     \<lparr>d_id = ca_id ca, d_name = ca_name ca, d_subjectDN = subjectDN ca,
      d_status = ca_status ca, d_keyAlgorithm = keyAlgorithm ca, d_keySize = keySize ca,
      d_curve = curve ca, d_validFrom = ca_validFrom ca, d_validTo = ca_validTo ca,
      d_crlNumber = crlNumber ca, d_crlDistributionPoint = crlDistributionPoint ca,
      d_ocspUrl = ocspUrl ca,
      hasCertificate = truthy (certificate ca),
      hasCertificateChain = truthy (certificateChain ca),
      certificateInfo = certInfoOf deps ca,
      certificateChainInfo = chainInfoOf deps ca\<rparr>"

definition GET :: "ca_deps \<Rightarrow> string \<Rightarrow> store \<Rightarrow> ca_body response" where
  "GET deps i st =
     (case getServerSession deps of
        Throws _ \<Rightarrow> \<lparr>status = 500, body = ErrorBody ''Failed to fetch CA details''\<rparr>
      | Returns None \<Rightarrow> \<lparr>status = 401, body = ErrorBody ''Unauthorized''\<rparr>
      | Returns (Some s) \<Rightarrow>
          if i = [] then \<lparr>status = 400, body = ErrorBody ''CA id is required''\<rparr>
          else
            (case findCA st i of
               None \<Rightarrow> \<lparr>status = 404, body = ErrorBody ''CA not found''\<rparr>
             | Some ca \<Rightarrow> \<lparr>status = 200, body = DetailsBody (detailsOf deps ca)\<rparr>))"




section \<open>Errors and capabilities of the core\<close>

datatype violation =
    CommonNameEmpty
  | SubjectAltNameInvalid string
  | KeyAlgorithmInvalid
  | KeyParameterInvalid
  | ValidityDaysInvalid
  | CertificateTypeInvalid

text \<open>The taxonomy of section 7 of the specification (the errors the two operations return).\<close>

datatype core_error =
    ValidationError violation
  | AuthorizationError
  | NotFoundError
  | InvalidReasonError
  | AlreadyRevokedError
  | CAUnavailableError
  | SerialCollisionError
  | CryptoError

text \<open>
  Modelled from the spec: the capability check of sections 6 and 9, made at the start of
  every mutating operation on the caller's resolved role. The roles are ADMIN, OPERATOR and
  VIEWER; issue and revoke require at least OPERATOR.
\<close>

definition atLeastOperator :: "user \<Rightarrow> bool" where
  "atLeastOperator u = (role u = ''OPERATOR'' \<or> role u = ''ADMIN'')"

section \<open>RevocationManager.revoke\<close>

fun reasonCode :: "revocation_reason \<Rightarrow> string" where
  "reasonCode UNSPECIFIED = ''UNSPECIFIED''"
| "reasonCode KEY_COMPROMISE = ''KEY_COMPROMISE''"
| "reasonCode CA_COMPROMISE = ''CA_COMPROMISE''"
| "reasonCode AFFILIATION_CHANGED = ''AFFILIATION_CHANGED''"
| "reasonCode SUPERSEDED = ''SUPERSEDED''"
| "reasonCode CESSATION_OF_OPERATION = ''CESSATION_OF_OPERATION''"
| "reasonCode CERTIFICATE_HOLD = ''CERTIFICATE_HOLD''"

definition revocationReasons :: "revocation_reason list" where
  "revocationReasons =
     [UNSPECIFIED, KEY_COMPROMISE, CA_COMPROMISE, AFFILIATION_CHANGED,
      SUPERSEDED, CESSATION_OF_OPERATION, CERTIFICATE_HOLD]"

definition parseReason :: "string \<Rightarrow> revocation_reason option" where
  "parseReason s = find (\<lambda>r. reasonCode r = s) revocationReasons"

definition revokedEntry :: "user \<Rightarrow> certificate_row \<Rightarrow> revocation_reason \<Rightarrow> audit_entry" where
  "revokedEntry actor c r =
     \<lparr>action = CERTIFICATE_REVOKED,
      description = ''Certificate revoked: '' @ commonName c,
      userId = user_id actor, audit_username = username actor,
      metadata = [(''certificateId'', JStr (cert_id c)), (''reason'', JStr (reasonCode r))]\<rparr>"

text \<open>
  Modelled from the spec: the revocation route and its service are not among the sources
  (only the integration test that calls the route is). Section 4.3:
  \<open>revoke(certificateId, reason) -> Revocation | NotFoundError | InvalidReasonError |
  AlreadyRevokedError\<close>. The operation starts with the capability check of sections 6 and
  9: a caller below OPERATOR is rejected with an authorization error. A reason outside the
  enumeration is InvalidReasonError before any write; a certificate that does not exist is
  NotFoundError; a certificate already REVOKED is AlreadyRevokedError with no write; on
  success the CertificateRevocation row, the status REVOKED and the
  AuditLog(CERTIFICATE_REVOKED) row are written as one unit. After the capability check the
  checks are made in the order section 4.3 names them.
\<close>

definition revoke ::
  "user \<Rightarrow> int \<Rightarrow> string \<Rightarrow> string \<Rightarrow> store
     \<Rightarrow> (core_error + certificate_revocation) \<times> store" where
  "revoke actor now cid rsn st =
     (if \<not> atLeastOperator actor then (Inl AuthorizationError, st)
      else
        (case parseReason rsn of
           None \<Rightarrow> (Inl InvalidReasonError, st)
         | Some r \<Rightarrow>
             (case findCertificate st cid of
                None \<Rightarrow> (Inl NotFoundError, st)
              | Some c \<Rightarrow>
                  if cert_status c = REVOKED then (Inl AlreadyRevokedError, st)
                  else
                    let rev = \<lparr>certificateId = cid, reason = r, revokedAt = now,
                               revokedById = user_id actor\<rparr>
                    in (Inr rev,
                        st\<lparr>certificateRevocations := certificateRevocations st @ [rev],
                           certificates :=
                             map (\<lambda>x. if cert_id x = cid then x\<lparr>cert_status := REVOKED\<rparr>
                                      else x)
                               (certificates st),
                           auditLogs := auditLogs st @ [revokedEntry actor c r]\<rparr>))))"

section \<open>CertificateIssuer.issue\<close>

record issue_request =
  req_commonName :: string
  req_subjectAltNames :: "string list"
  req_keyAlgorithm :: string
  req_keyParameter :: string
  req_validityDays :: int
  req_certificateType :: string

text \<open>
  What the specification leaves to its collaborators: the syntax check of one subject
  alternative name, the allowed key sizes or curves of an algorithm, the serial candidate
  of an attempt and the bound on attempts (SerialAllocator), key generation and signing
  (CryptoService, \<open>None\<close> being a failure), the key identifier, the key usages of a
  certificate type and the id of the new row.
\<close>

record issue_deps =
  validSubjectAltName :: "string \<Rightarrow> bool"
  allowedKeyParameters :: "string \<Rightarrow> string list"
  serialCandidate :: "string \<Rightarrow> nat \<Rightarrow> string"
  maxSerialAttempts :: nat
  generateKeyPair :: "string \<Rightarrow> string \<Rightarrow> string option"
  keyIdentifier :: "string \<Rightarrow> string"
  keyUsageOf :: "string \<Rightarrow> string list"
  extendedKeyUsageOf :: "string \<Rightarrow> string list"
  signWithCAKey :: "string \<Rightarrow> string \<Rightarrow> string option"
  newCertificateId :: "store \<Rightarrow> string"

definition msPerDay :: int where
  "msPerDay = 86400000"

text \<open>The days left until the CA's \<open>validTo\<close>; none when the CA has no validity.\<close>

definition remainingValidityDays :: "ca_config \<Rightarrow> int \<Rightarrow> int" where
  "remainingValidityDays ca now =
     (case ca_validTo ca of None \<Rightarrow> 0 | Some t \<Rightarrow> (t - now) div msPerDay)"

text \<open>
  Modelled from the spec: step (1) of section 4.1, fail-fast validation returning the first
  violation, the constraints taken in the order the section lists them: commonName
  non-empty; each subjectAltName valid; keyAlgorithm one of RSA, ECDSA, Ed25519 with an
  allowed size or curve; validityDays positive and within the CA's remaining validity;
  certificateType one of SERVER, CLIENT, CA.
\<close>

definition validate :: "issue_deps \<Rightarrow> ca_config \<Rightarrow> int \<Rightarrow> issue_request \<Rightarrow> violation option" where
  "validate deps ca now req =
     (if req_commonName req = [] then Some CommonNameEmpty
      else
        (case find (\<lambda>n. \<not> validSubjectAltName deps n) (req_subjectAltNames req) of
           Some n \<Rightarrow> Some (SubjectAltNameInvalid n)
         | None \<Rightarrow>
             if req_keyAlgorithm req \<notin> set [''RSA'', ''ECDSA'', ''Ed25519'']
             then Some KeyAlgorithmInvalid
             else if req_keyParameter req \<notin> set (allowedKeyParameters deps (req_keyAlgorithm req))
             then Some KeyParameterInvalid
             else if req_validityDays req \<le> 0
                     \<or> remainingValidityDays ca now < req_validityDays req
             then Some ValidityDaysInvalid
             else if req_certificateType req \<notin> set [''SERVER'', ''CLIENT'', ''CA'']
             then Some CertificateTypeInvalid
             else None))"

text \<open>
  Modelled from the spec: step (3), a serial that no certificate of the CA carries, the
  candidates tried in turn up to the bound.
\<close>

fun allocateSerial :: "(nat \<Rightarrow> string) \<Rightarrow> string list \<Rightarrow> nat \<Rightarrow> nat \<Rightarrow> string option" where
  "allocateSerial candidate taken attempt 0 = None"
| "allocateSerial candidate taken attempt (Suc left) =
     (if candidate attempt \<in> set taken then allocateSerial candidate taken (Suc attempt) left
      else Some (candidate attempt))"

text \<open>
  The to-be-signed certificate of step (5), with the extensions the section lists.
\<close>

record tbs_certificate =
  tbs_serialNumber :: string
  tbs_subjectCN :: string
  tbs_publicKey :: string
  tbs_notBefore :: int
  tbs_notAfter :: int
  basicConstraintsCA :: bool
  keyUsage :: "string list"
  extendedKeyUsage :: "string list"
  subjectAltName :: "string list"
  subjectKeyIdentifier :: string
  authorityKeyIdentifier :: "string option"
  crlDistributionPoints :: "string option"
  authorityInfoAccessOCSP :: "string option"

definition assemble ::
  "issue_deps \<Rightarrow> ca_config \<Rightarrow> int \<Rightarrow> issue_request \<Rightarrow> string \<Rightarrow> string \<Rightarrow> tbs_certificate" where
  "assemble deps ca now req serial pub =
     \<lparr>tbs_serialNumber = serial, tbs_subjectCN = req_commonName req, tbs_publicKey = pub,
      tbs_notBefore = now, tbs_notAfter = now + req_validityDays req * msPerDay,
      basicConstraintsCA = (req_certificateType req = ''CA''),
      keyUsage = keyUsageOf deps (req_certificateType req),
      extendedKeyUsage = extendedKeyUsageOf deps (req_certificateType req),
      subjectAltName = req_subjectAltNames req,
      subjectKeyIdentifier = keyIdentifier deps pub,
      authorityKeyIdentifier = map_option (keyIdentifier deps) (certificate ca),
      crlDistributionPoints = crlDistributionPoint ca,
      authorityInfoAccessOCSP = ocspUrl ca\<rparr>"

text \<open>The encoding handed to the signer: the fields of the certificate in a fixed order.\<close>

definition encodeTBS :: "tbs_certificate \<Rightarrow> string" where
  "encodeTBS t =
     concat (map (\<lambda>f. f @ ''|'')
       ([tbs_serialNumber t, tbs_subjectCN t, tbs_publicKey t, subjectKeyIdentifier t]
        @ subjectAltName t @ keyUsage t @ extendedKeyUsage t))"

definition issuedEntry :: "user \<Rightarrow> certificate_row \<Rightarrow> audit_entry" where
  "issuedEntry actor c =
     \<lparr>action = CERTIFICATE_ISSUED,
      description = ''Certificate issued: '' @ commonName c,
      userId = user_id actor, audit_username = username actor,
      metadata = [(''serialNumber'', JStr (serialNumber c))]\<rparr>"

text \<open>
  Modelled from the spec: the issuance route and its service are not among the sources
  (only the integration test that calls the route is). Section 4.1,
  \<open>issue(request) -> Certificate | ValidationError | CAUnavailableError | CryptoError\<close>.
  The operation starts with the capability check of sections 6 and 9: a caller below
  OPERATOR is rejected with an authorization error. Then (1) validate, (2) the CA must be
  ACTIVE, (3) allocate a serial, (4) generate the key pair, (5) assemble, (6) sign with the
  CA key, (7) persist the Certificate row and the AuditLog(CERTIFICATE_ISSUED) row as one
  unit; a failure persists nothing. The result is the encoded certificate and the
  Certificate row.
\<close>

definition issue ::
  "issue_deps \<Rightarrow> user \<Rightarrow> int \<Rightarrow> ca_config \<Rightarrow> issue_request \<Rightarrow> store
     \<Rightarrow> (core_error + string \<times> certificate_row) \<times> store" where
  "issue deps actor now ca req st =
     (if \<not> atLeastOperator actor then (Inl AuthorizationError, st) else
      case validate deps ca now req of
        Some v \<Rightarrow> (Inl (ValidationError v), st)
      | None \<Rightarrow>
          if ca_status ca \<noteq> CA_ACTIVE then (Inl CAUnavailableError, st)
          else
            (case allocateSerial (serialCandidate deps (ca_id ca))
                    (map serialNumber (filter (\<lambda>c. caId c = ca_id ca) (certificates st)))
                    0 (maxSerialAttempts deps) of
               None \<Rightarrow> (Inl SerialCollisionError, st)
             | Some serial \<Rightarrow>
                 (case generateKeyPair deps (req_keyAlgorithm req) (req_keyParameter req) of
                    None \<Rightarrow> (Inl CryptoError, st)
                  | Some pub \<Rightarrow>
                      let tbs = assemble deps ca now req serial pub
                      in (case signWithCAKey deps (encryptedPrivateKey ca) (encodeTBS tbs) of
                            None \<Rightarrow> (Inl CryptoError, st)
                          | Some encoded \<Rightarrow>
                              let row = \<lparr>cert_id = newCertificateId deps st,
                                         serialNumber = serial,
                                         commonName = req_commonName req,
                                         subjectAltNames = req_subjectAltNames req,
                                         publicKey = pub,
                                         validFrom = tbs_notBefore tbs,
                                         validTo = tbs_notAfter tbs,
                                         cert_status = ACTIVE,
                                         issuedById = user_id actor,
                                         caId = ca_id ca\<rparr>
                              in (Inr (encoded, row),
                                  st\<lparr>certificates := certificates st @ [row],
                                     auditLogs := auditLogs st @ [issuedEntry actor row]\<rparr>)))))"

section \<open>Sequences of operations\<close>





section \<open>Concrete runs\<close>

text \<open>The three components of a run of \<open>POST\<close>.\<close>

abbreviation responseOf :: "'a \<times> 'b \<times> 'c \<Rightarrow> 'a" where
  "responseOf r \<equiv> fst r"

abbreviation rowsOf :: "'a \<times> 'b \<times> 'c \<Rightarrow> 'b" where
  "rowsOf r \<equiv> fst (snd r)"

abbreviation callsOf :: "'a \<times> 'b \<times> 'c \<Rightarrow> 'c" where
  "callsOf r \<equiv> snd (snd r)"

definition crlManager :: session where
  "crlManager =
     \<lparr>session_user = \<lparr>user_id = ''u1'', username = ''operator'', role = ''OPERATOR'',
                      permissions = [''crl:manage'']\<rparr>\<rparr>"

text \<open>A request without \<open>type\<close>, from a session that may manage CRLs; every collaborator works.\<close>

definition workingDeps :: "unit crl_deps" where
  "workingDeps =
     \<lparr>getApiSession = (\<lambda>_. Returns (Some crlManager)),
      requestJson = (\<lambda>_. Returns (JObj [(''caId'', JStr ''ca1'')])),
      generateCRL = (\<lambda>_. Returns ''full-crl''),
      generateDeltaCRL = (\<lambda>_. Returns ''delta-crl''),
      auditAccepts = (\<lambda>_. True),
      nowISO = ''2025-01-01T00:00:00.000Z''\<rparr>"

text \<open>The same request when \<open>CAService.generateCRL\<close> rejects.\<close>

definition failingDeps :: "unit crl_deps" where
  "failingDeps = workingDeps\<lparr>generateCRL := (\<lambda>_. Throws ''CA not found'')\<rparr>"

text \<open>The same request without a session.\<close>

definition anonymousDeps :: "unit crl_deps" where
  "anonymousDeps = workingDeps\<lparr>getApiSession := (\<lambda>_. Returns None)\<rparr>"

text \<open>Requests with \<open>type: "delta"\<close> and with \<open>type: "DELTA"\<close>.\<close>

definition deltaDeps :: "unit crl_deps" where
  "deltaDeps = workingDeps\<lparr>requestJson :=
      (\<lambda>_. Returns (JObj [(''type'', JStr ''delta''), (''caId'', JStr ''ca1'')]))\<rparr>"

definition upperDeps :: "unit crl_deps" where
  "upperDeps = workingDeps\<lparr>requestJson :=
      (\<lambda>_. Returns (JObj [(''type'', JStr ''DELTA''), (''caId'', JStr ''ca1'')]))\<rparr>"




text \<open>
  A CA whose stored certificate is not PEM and whose stored chain holds one block that
  does not parse, two certificates of that CA, one of them revoked, and one certificate of
  another CA.
\<close>

definition demoCA :: ca_config where
  "demoCA =
     \<lparr>ca_id = ''ca1'', ca_name = ''Issuing CA'', subjectDN = ''CN=Issuing CA'',
      ca_status = CA_ACTIVE, keyAlgorithm = ''RSA'', keySize = Some 2048, curve = None,
      encryptedPrivateKey = ''encrypted-key'',
      certificate = Some ''not a certificate'',
      certificateChain = Some (pemBegin @ ''broken'' @ pemEnd),
      ca_validFrom = Some 0, ca_validTo = Some 864000000000, crlNumber = 3,
      crlDistributionPoint = None, ocspUrl = None\<rparr>"

definition activeCert :: certificate_row where
  "activeCert =
     \<lparr>cert_id = ''c1'', serialNumber = ''01'', commonName = ''a.example.com'',
      subjectAltNames = [], publicKey = ''pk1'', validFrom = 0, validTo = 1000,
      cert_status = ACTIVE, issuedById = ''u1'', caId = ''ca1''\<rparr>"

definition revokedCert :: certificate_row where
  "revokedCert =
     \<lparr>cert_id = ''c2'', serialNumber = ''02'', commonName = ''b.example.com'',
      subjectAltNames = [], publicKey = ''pk2'', validFrom = 0, validTo = 1000,
      cert_status = REVOKED, issuedById = ''u1'', caId = ''ca1''\<rparr>"

definition otherCert :: certificate_row where
  "otherCert =
     \<lparr>cert_id = ''c3'', serialNumber = ''01'', commonName = ''c.example.com'',
      subjectAltNames = [], publicKey = ''pk3'', validFrom = 0, validTo = 1000,
      cert_status = ACTIVE, issuedById = ''u1'', caId = ''ca2''\<rparr>"

definition demoStore :: store where
  "demoStore =
     \<lparr>caConfigs = [demoCA], certificates = [activeCert, revokedCert, otherCert],
      certificateRevocations =
        [\<lparr>certificateId = ''c2'', reason = UNSPECIFIED, revokedAt = 500,
          revokedById = ''u1''\<rparr>],
      crls = [], auditLogs = []\<rparr>"




text \<open>An issuance request with an empty common name, and collaborators that all work.\<close>

definition demoIssueDeps :: issue_deps where
  "demoIssueDeps =
     \<lparr>validSubjectAltName = (\<lambda>n. n \<noteq> []),
      allowedKeyParameters = (\<lambda>a. if a = ''RSA'' then [''2048'', ''4096''] else []),
      serialCandidate = (\<lambda>ca n. ca @ ''-'' @ replicate (Suc n) CHR ''1''),
      maxSerialAttempts = 3,
      generateKeyPair = (\<lambda>a p. Some (''public-'' @ a @ p)),
      keyIdentifier = (\<lambda>k. ''id-'' @ k),
      keyUsageOf = (\<lambda>t. [''digitalSignature'']),
      extendedKeyUsageOf = (\<lambda>t. [''serverAuth'']),
      signWithCAKey = (\<lambda>k t. Some (''signed:'' @ t)),
      newCertificateId = (\<lambda>st. ''c'' @ replicate (length (certificates st)) CHR ''x'')\<rparr>"

definition emptyNameRequest :: issue_request where
  "emptyNameRequest =
     \<lparr>req_commonName = [], req_subjectAltNames = [], req_keyAlgorithm = ''RSA'',
      req_keyParameter = ''2048'', req_validityDays = 365, req_certificateType = ''SERVER''\<rparr>"

definition namedRequest :: issue_request where
  "namedRequest = emptyNameRequest\<lparr>req_commonName := ''a.example.com''\<rparr>"

text \<open>The same request when the audit sink rejects the success row and accepts others.\<close>

definition pickyDeps :: "unit crl_deps" where
  "pickyDeps =
     workingDeps\<lparr>auditAccepts := (\<lambda>e. description e \<noteq> ''Full CRL generated successfully'')\<rparr>"

text \<open>The same request when the session lookup itself throws.\<close>

definition throwingSessionDeps :: "unit crl_deps" where
  "throwingSessionDeps =
     workingDeps\<lparr>getApiSession := (\<lambda>_. Throws ''session store unavailable'')\<rparr>"

text \<open>A request whose body is the JSON value \<open>null\<close>.\<close>

definition nullBodyDeps :: "unit crl_deps" where
  "nullBodyDeps = workingDeps\<lparr>requestJson := (\<lambda>_. Returns JNull)\<rparr>"

text \<open>A caller below OPERATOR.\<close>

definition viewer :: user where
  "viewer = \<lparr>user_id = ''u2'', username = ''viewer'', role = ''VIEWER'', permissions = []\<rparr>"








section \<open>The shape of a run of POST\<close>

lemma POST_full:
  assumes "getApiSession deps req = Returns (Some s)"
    and "''crl:manage'' \<in> set (permissions (session_user s))"
    and "requestJson deps req = Returns b" and "b \<noteq> JNull"
    and "getProp b ''type'' \<noteq> Some (JStr ''delta'')"
  shows "POST deps req rows =
     (case generateCRL deps (getProp b ''caId'') of
        Throws msg \<Rightarrow> caught deps req msg rows [GenerateCRL (getProp b ''caId'')]
      | Returns crl \<Rightarrow>
          (case AuditService_log (auditAccepts deps)
                  (successEntry deps s ''Full CRL generated successfully''
                     (case getProp b ''type'' of None \<Rightarrow> JStr ''full'' | Some v \<Rightarrow> v)) rows of
             Throws msg \<Rightarrow> caught deps req msg rows [GenerateCRL (getProp b ''caId'')]
           | Returns rows' \<Rightarrow>
               (\<lparr>status = 200,
                 body = JObj [(''success'', JBool True),
                              (''message'', JStr ''Full CRL generated successfully''),
                              (''crl'', JStr crl),
                              (''type'', (case getProp b ''type'' of
                                            None \<Rightarrow> JStr ''full'' | Some v \<Rightarrow> v))]\<rparr>,
                rows', [GenerateCRL (getProp b ''caId'')])))"
proof -
  have d: "destructure b =
      Returns ((case getProp b ''type'' of None \<Rightarrow> JStr ''full'' | Some v \<Rightarrow> v),
               getProp b ''caId'')"
    using assms(4) by (simp add: destructure_def)
  have n: "(case getProp b ''type'' of None \<Rightarrow> JStr ''full'' | Some v \<Rightarrow> v) \<noteq> JStr ''delta''"
    using assms(5) by (cases "getProp b ''type''") simp_all
  show ?thesis
    unfolding POST_def using assms(1-3) by (simp add: d n)
qed

lemma POST_delta:
  assumes "getApiSession deps req = Returns (Some s)"
    and "''crl:manage'' \<in> set (permissions (session_user s))"
    and "requestJson deps req = Returns b" and "b \<noteq> JNull"
    and "getProp b ''type'' = Some (JStr ''delta'')"
  shows "POST deps req rows =
     (case generateDeltaCRL deps (getProp b ''caId'') of
        Throws msg \<Rightarrow> caught deps req msg rows [GenerateDeltaCRL (getProp b ''caId'')]
      | Returns crl \<Rightarrow>
          (case AuditService_log (auditAccepts deps)
                  (successEntry deps s ''Delta CRL generated successfully'' (JStr ''delta''))
                  rows of
             Throws msg \<Rightarrow> caught deps req msg rows [GenerateDeltaCRL (getProp b ''caId'')]
           | Returns rows' \<Rightarrow>
               (\<lparr>status = 200,
                 body = JObj [(''success'', JBool True),
                              (''message'', JStr ''Delta CRL generated successfully''),
                              (''crl'', JStr crl), (''type'', JStr ''delta'')]\<rparr>,
                rows', [GenerateDeltaCRL (getProp b ''caId'')])))"
proof -
  have d: "destructure b = Returns (JStr ''delta'', getProp b ''caId'')"
    using assms(4,5) by (simp add: destructure_def)
  show ?thesis
    unfolding POST_def using assms(1-3) by (simp add: d)
qed

lemma failureEntry_generators:
  "failureEntry (deps\<lparr>generateCRL := g\<rparr>) s msg = failureEntry deps s msg"
  "failureEntry (deps\<lparr>generateDeltaCRL := h\<rparr>) s msg = failureEntry deps s msg"
  by (simp_all add: failureEntry_def)

lemma caught_generators:
  "caught (deps\<lparr>generateCRL := g\<rparr>) req msg rows calls = caught deps req msg rows calls"
  "caught (deps\<lparr>generateDeltaCRL := h\<rparr>) req msg rows calls = caught deps req msg rows calls"
  by (simp_all add: caught_def logFailure_def failureEntry_generators
      cong: outcome.case_cong option.case_cong)

lemma successEntry_generators:
  "successEntry (deps\<lparr>generateCRL := g\<rparr>) s d ty = successEntry deps s d ty"
  "successEntry (deps\<lparr>generateDeltaCRL := h\<rparr>) s d ty = successEntry deps s d ty"
  by (simp_all add: successEntry_def)

lemma POST_full_ignores_delta:
  assumes "getApiSession deps req = Returns (Some s)"
    and "''crl:manage'' \<in> set (permissions (session_user s))"
    and "requestJson deps req = Returns b" and "b \<noteq> JNull"
    and "getProp b ''type'' \<noteq> Some (JStr ''delta'')"
  shows "POST (deps\<lparr>generateDeltaCRL := h\<rparr>) req rows = POST deps req rows"
proof -
  have 1: "getApiSession (deps\<lparr>generateDeltaCRL := h\<rparr>) req = Returns (Some s)"
    and 3: "requestJson (deps\<lparr>generateDeltaCRL := h\<rparr>) req = Returns b"
    using assms by simp_all
  show ?thesis
    by (simp add: POST_full [OF 1 assms(2) 3 assms(4,5)] POST_full [OF assms]
        caught_generators successEntry_generators cong: outcome.case_cong)
qed

lemma POST_delta_ignores_full:
  assumes "getApiSession deps req = Returns (Some s)"
    and "''crl:manage'' \<in> set (permissions (session_user s))"
    and "requestJson deps req = Returns b" and "b \<noteq> JNull"
    and "getProp b ''type'' = Some (JStr ''delta'')"
  shows "POST (deps\<lparr>generateCRL := g\<rparr>) req rows = POST deps req rows"
proof -
  have 1: "getApiSession (deps\<lparr>generateCRL := g\<rparr>) req = Returns (Some s)"
    and 3: "requestJson (deps\<lparr>generateCRL := g\<rparr>) req = Returns b"
    using assms by simp_all
  show ?thesis
    by (simp add: POST_delta [OF 1 assms(2) 3 assms(4,5)] POST_delta [OF assms]
        caught_generators successEntry_generators cong: outcome.case_cong)
qed

lemma POST_before_dispatch:
  assumes "(\<forall>s. getApiSession deps req = Returns (Some s) \<longrightarrow>
               ''crl:manage'' \<notin> set (permissions (session_user s)))
           \<or> (\<exists>m. requestJson deps req = Throws m)
           \<or> requestJson deps req = Returns JNull"
  shows "callsOf (POST deps req rows) = [] \<and>
         POST (deps\<lparr>generateCRL := g, generateDeltaCRL := h\<rparr>) req rows = POST deps req rows"
proof (cases "getApiSession deps req")
  case (Throws m)
  then show ?thesis
    by (simp add: POST_def caught_generators) (simp add: caught_def)
next
  case (Returns so)
  show ?thesis
  proof (cases so)
    case None
    with Returns show ?thesis by (simp add: POST_def)
  next
    case (Some s)
    show ?thesis
    proof (cases "''crl:manage'' \<in> set (permissions (session_user s))")
      case False
      with Returns Some show ?thesis by (simp add: POST_def)
    next
      case True
      with assms Returns Some
      have "(\<exists>m. requestJson deps req = Throws m) \<or> requestJson deps req = Returns JNull"
        by auto
      then show ?thesis
      proof
        assume "\<exists>m. requestJson deps req = Throws m"
        then obtain m where "requestJson deps req = Throws m" ..
        with Returns Some True show ?thesis
          by (simp add: POST_def caught_generators) (simp add: caught_def)
      next
        assume "requestJson deps req = Returns JNull"
        with Returns Some True show ?thesis
          by (simp add: POST_def destructure_def caught_generators) (simp add: caught_def)
      qed
    qed
  qed
qed

lemma calls_of_caught: "callsOf (caught deps req msg rows calls) = calls"
  by (simp add: caught_def)

lemma POST_delta_only:
  assumes "GenerateDeltaCRL c \<in> set (callsOf (POST deps req rows))"
  shows "\<exists>b. requestJson deps req = Returns b \<and> getProp b ''type'' = Some (JStr ''delta'')"
proof (rule ccontr)
  assume n: "\<not> (\<exists>b. requestJson deps req = Returns b \<and>
                     getProp b ''type'' = Some (JStr ''delta''))"
  show False
  proof (cases "(\<forall>s. getApiSession deps req = Returns (Some s) \<longrightarrow>
               ''crl:manage'' \<notin> set (permissions (session_user s)))
           \<or> (\<exists>m. requestJson deps req = Throws m)
           \<or> requestJson deps req = Returns JNull")
    case True
    from POST_before_dispatch [OF True, of rows] assms show False by simp
  next
    case False
    then obtain s b where a: "getApiSession deps req = Returns (Some s)"
        "''crl:manage'' \<in> set (permissions (session_user s))"
        "requestJson deps req = Returns b" "b \<noteq> JNull"
      by (cases "requestJson deps req") auto
    with n have t: "getProp b ''type'' \<noteq> Some (JStr ''delta'')" by simp
    have "callsOf (POST deps req rows) = [GenerateCRL (getProp b ''caId'')]"
      by (simp add: POST_full [OF a t] calls_of_caught split: outcome.splits)
    with assms show False by simp
  qed
qed

lemma POST_pre_dispatch:
  assumes "(\<forall>s. getApiSession deps req = Returns (Some s) \<longrightarrow>
               ''crl:manage'' \<notin> set (permissions (session_user s)))
           \<or> (\<exists>m. requestJson deps req = Throws m)
           \<or> requestJson deps req = Returns JNull"
  shows "POST deps req rows = (\<lparr>status = 401, body = errorBody ''Unauthorized''\<rparr>, rows, [])
       \<or> POST deps req rows =
            (\<lparr>status = 403, body = errorBody ''Insufficient permissions''\<rparr>, rows, [])
       \<or> (\<exists>msg. POST deps req rows = caught deps req msg rows [])"
proof (cases "getApiSession deps req")
  case (Throws m)
  then have "POST deps req rows = caught deps req m rows []" by (simp add: POST_def)
  then show ?thesis by blast
next
  case (Returns so)
  show ?thesis
  proof (cases so)
    case None
    with Returns show ?thesis by (simp add: POST_def)
  next
    case (Some s)
    show ?thesis
    proof (cases "''crl:manage'' \<in> set (permissions (session_user s))")
      case False
      with Returns Some show ?thesis by (simp add: POST_def)
    next
      case True
      with assms Returns Some
      have "(\<exists>m. requestJson deps req = Throws m) \<or> requestJson deps req = Returns JNull"
        by auto
      then show ?thesis
      proof
        assume "\<exists>m. requestJson deps req = Throws m"
        then obtain m where "requestJson deps req = Throws m" ..
        with Returns Some True have "POST deps req rows = caught deps req m rows []"
          by (simp add: POST_def)
        then show ?thesis by blast
      next
        assume "requestJson deps req = Returns JNull"
        with Returns Some True
        have "POST deps req rows =
            caught deps req ''Cannot read properties of null (reading 'type')'' rows []"
          by (simp add: POST_def destructure_def)
        then show ?thesis by blast
      qed
    qed
  qed
qed

text \<open>Every run ends in one of four ways.\<close>

lemma POST_shape:
  "POST deps req rows = (\<lparr>status = 401, body = errorBody ''Unauthorized''\<rparr>, rows, [])
   \<or> POST deps req rows =
        (\<lparr>status = 403, body = errorBody ''Insufficient permissions''\<rparr>, rows, [])
   \<or> (\<exists>msg calls. POST deps req rows = caught deps req msg rows calls)
   \<or> (\<exists>s d ty.
         status (responseOf (POST deps req rows)) = 200 \<and>
         rowsOf (POST deps req rows) = rows @ [successEntry deps s d ty] \<and>
         (d = ''Full CRL generated successfully'' \<or> d = ''Delta CRL generated successfully''))"
proof (cases "(\<forall>s. getApiSession deps req = Returns (Some s) \<longrightarrow>
               ''crl:manage'' \<notin> set (permissions (session_user s)))
           \<or> (\<exists>m. requestJson deps req = Throws m)
           \<or> requestJson deps req = Returns JNull")
  case True
  from POST_pre_dispatch [OF True, of rows] show ?thesis by blast
next
  case False
  then obtain s b where a: "getApiSession deps req = Returns (Some s)"
      "''crl:manage'' \<in> set (permissions (session_user s))"
      "requestJson deps req = Returns b" "b \<noteq> JNull"
    by (cases "requestJson deps req") auto
  show ?thesis
  proof (cases "getProp b ''type'' = Some (JStr ''delta'')")
    case True
    show ?thesis
    proof (cases "generateDeltaCRL deps (getProp b ''caId'')")
      case (Throws m)
      then have "POST deps req rows =
          caught deps req m rows [GenerateDeltaCRL (getProp b ''caId'')]"
        by (simp add: POST_delta [OF a True])
      then show ?thesis by blast
    next
      case (Returns crl)
      show ?thesis
      proof (cases "auditAccepts deps
              (successEntry deps s ''Delta CRL generated successfully'' (JStr ''delta''))")
        case True
        with Returns have "status (responseOf (POST deps req rows)) = 200"
          "rowsOf (POST deps req rows) =
             rows @ [successEntry deps s ''Delta CRL generated successfully'' (JStr ''delta'')]"
          by (simp_all add: POST_delta [OF a \<open>getProp b ''type'' = Some (JStr ''delta'')\<close>]
              AuditService_log_def)
        then show ?thesis by blast
      next
        case False
        with Returns have "POST deps req rows =
            caught deps req ''audit log rejected'' rows [GenerateDeltaCRL (getProp b ''caId'')]"
          by (simp add: POST_delta [OF a \<open>getProp b ''type'' = Some (JStr ''delta'')\<close>]
              AuditService_log_def)
        then show ?thesis by blast
      qed
    qed
  next
    case False
    show ?thesis
    proof (cases "generateCRL deps (getProp b ''caId'')")
      case (Throws m)
      then have "POST deps req rows =
          caught deps req m rows [GenerateCRL (getProp b ''caId'')]"
        by (simp add: POST_full [OF a False])
      then show ?thesis by blast
    next
      case (Returns crl)
      show ?thesis
      proof (cases "auditAccepts deps
              (successEntry deps s ''Full CRL generated successfully''
                 (case getProp b ''type'' of None \<Rightarrow> JStr ''full'' | Some v \<Rightarrow> v))")
        case True
        with Returns have "status (responseOf (POST deps req rows)) = 200"
          "rowsOf (POST deps req rows) =
             rows @ [successEntry deps s ''Full CRL generated successfully''
                       (case getProp b ''type'' of None \<Rightarrow> JStr ''full'' | Some v \<Rightarrow> v)]"
          by (simp_all add: POST_full [OF a \<open>getProp b ''type'' \<noteq> Some (JStr ''delta'')\<close>]
              AuditService_log_def)
        then show ?thesis by blast
      next
        case False
        with Returns have "POST deps req rows =
            caught deps req ''audit log rejected'' rows [GenerateCRL (getProp b ''caId'')]"
          by (simp add: POST_full [OF a \<open>getProp b ''type'' \<noteq> Some (JStr ''delta'')\<close>]
              AuditService_log_def)
        then show ?thesis by blast
      qed
    qed
  qed
qed

lemma logFailure_session:
  "getApiSession deps req = Returns (Some s) \<Longrightarrow>
     logFailure deps req msg rows =
       (if auditAccepts deps (failureEntry deps s msg) then rows @ [failureEntry deps s msg]
        else rows)"
  by (simp add: logFailure_def AuditService_log_def)

lemma logFailure_no_session:
  "getApiSession deps req = Throws m \<or> getApiSession deps req = Returns None \<Longrightarrow>
     logFailure deps req msg rows = rows"
  by (auto simp: logFailure_def)

lemma logFailure_cases:
  "logFailure deps req msg rows = rows \<or>
   (\<exists>s. getApiSession deps req = Returns (Some s) \<and>
        logFailure deps req msg rows = rows @ [failureEntry deps s msg])"
proof (cases "getApiSession deps req")
  case (Throws m)
  then show ?thesis by (simp add: logFailure_no_session)
next
  case (Returns so)
  then show ?thesis
    by (cases so) (simp_all add: logFailure_no_session logFailure_session)
qed

lemma POST_working:
  "POST workingDeps () [] =
     (\<lparr>status = 200,
       body = JObj [(''success'', JBool True),
                    (''message'', JStr ''Full CRL generated successfully''),
                    (''crl'', JStr ''full-crl''), (''type'', JStr ''full'')]\<rparr>,
      [successEntry workingDeps crlManager ''Full CRL generated successfully'' (JStr ''full'')],
      [GenerateCRL (Some (JStr ''ca1''))])"
  by (simp add: POST_def workingDeps_def crlManager_def destructure_def AuditService_log_def)

lemma POST_failing:
  "POST failingDeps () [] =
     (\<lparr>status = 500,
       body = JObj [(''error'', JStr ''Failed to generate CRL''),
                    (''details'', JStr ''CA not found'')]\<rparr>,
      [failureEntry failingDeps crlManager ''CA not found''],
      [GenerateCRL (Some (JStr ''ca1''))])"
  by (simp add: POST_def failingDeps_def workingDeps_def crlManager_def destructure_def
      AuditService_log_def caught_def logFailure_def)

lemma POST_anonymous:
  "POST anonymousDeps () [] = (\<lparr>status = 401, body = errorBody ''Unauthorized''\<rparr>, [], [])"
  by (simp add: POST_def anonymousDeps_def workingDeps_def)

lemma POST_picky:
  "POST pickyDeps () [] =
     (\<lparr>status = 500,
       body = JObj [(''error'', JStr ''Failed to generate CRL''),
                    (''details'', JStr ''audit log rejected'')]\<rparr>,
      [failureEntry pickyDeps crlManager ''audit log rejected''],
      [GenerateCRL (Some (JStr ''ca1''))])"
  by (simp add: POST_def pickyDeps_def workingDeps_def crlManager_def destructure_def
      AuditService_log_def caught_def logFailure_def successEntry_def failureEntry_def)

lemma POST_nullBody:
  "POST nullBodyDeps () [] =
     (\<lparr>status = 500,
       body = JObj [(''error'', JStr ''Failed to generate CRL''),
                    (''details'', JStr ''Cannot read properties of null (reading 'type')'')]\<rparr>,
      [failureEntry nullBodyDeps crlManager ''Cannot read properties of null (reading 'type')''],
      [])"
  by (simp add: POST_def nullBodyDeps_def workingDeps_def crlManager_def destructure_def
      AuditService_log_def caught_def logFailure_def)

section \<open>Audit rows of CRL generation\<close>

text \<open>
  C1, as stated, fails: when \<open>CAService.generateCRL\<close> rejects, the \<open>catch\<close> block of the
  handler still writes an AuditLog row with action CRL_GENERATED, so this failed run (status
  500) leaves one such row, not zero.
\<close>

theorem C1_failed_run_audited_counterexample:
  "status (responseOf (POST failingDeps () [])) = 500 \<and>
   map action (rowsOf (POST failingDeps () [])) = [CRL_GENERATED]"
  by (simp add: POST_failing failureEntry_def)

text \<open>
  C1, amended. The rows counted are those the handler itself writes through
  \<open>AuditService.log\<close>. A run answered 200 appends exactly one AuditLog row, with action
  CRL_GENERATED and the success description; a run rejected with 401 or 403 appends none; a
  run answered 500 appends at most one row, with action CRL_GENERATED and the description
  \<open>CRL generation failed: <message>\<close>. When the session resolves again in the \<open>catch\<close>
  block, a run answered 500 appends exactly the failure row for the message it answers with
  if the audit sink accepts that row, and nothing if the sink rejects it; when the session
  lookup throws, it appends nothing. No other status is answered.
\<close>

theorem C1_audit_rows_by_outcome:
  "(status (responseOf (POST deps req rows)) = 200 \<longrightarrow>
      (\<exists>e. rowsOf (POST deps req rows) = rows @ [e] \<and> action e = CRL_GENERATED \<and>
           (description e = ''Full CRL generated successfully'' \<or>
            description e = ''Delta CRL generated successfully'')))
   \<and> (status (responseOf (POST deps req rows)) = 401 \<or>
       status (responseOf (POST deps req rows)) = 403 \<longrightarrow>
         rowsOf (POST deps req rows) = rows)
   \<and> (status (responseOf (POST deps req rows)) = 500 \<longrightarrow>
         rowsOf (POST deps req rows) = rows \<or>
         (\<exists>e msg. rowsOf (POST deps req rows) = rows @ [e] \<and> action e = CRL_GENERATED \<and>
              description e = ''CRL generation failed: '' @ msg))
   \<and> (status (responseOf (POST deps req rows)) = 500 \<and>
       getApiSession deps req = Returns (Some s) \<longrightarrow>
         (\<exists>msg. body (responseOf (POST deps req rows)) =
                  JObj [(''error'', JStr ''Failed to generate CRL''), (''details'', JStr msg)] \<and>
               rowsOf (POST deps req rows) =
                 (if auditAccepts deps (failureEntry deps s msg)
                  then rows @ [failureEntry deps s msg] else rows)))
   \<and> (status (responseOf (POST deps req rows)) = 500 \<and>
       getApiSession deps req = Throws m \<longrightarrow>
         rowsOf (POST deps req rows) = rows)
   \<and> (status (responseOf (POST deps req rows)) = 200 \<or>
       status (responseOf (POST deps req rows)) = 401 \<or>
       status (responseOf (POST deps req rows)) = 403 \<or>
       status (responseOf (POST deps req rows)) = 500)"
proof -
  consider
      (unauthenticated) "POST deps req rows =
          (\<lparr>status = 401, body = errorBody ''Unauthorized''\<rparr>, rows, [])"
    | (forbidden) "POST deps req rows =
          (\<lparr>status = 403, body = errorBody ''Insufficient permissions''\<rparr>, rows, [])"
    | (failed) msg calls where "POST deps req rows = caught deps req msg rows calls"
    | (generated) s' d ty where "status (responseOf (POST deps req rows)) = 200"
        "rowsOf (POST deps req rows) = rows @ [successEntry deps s' d ty]"
        "d = ''Full CRL generated successfully'' \<or> d = ''Delta CRL generated successfully''"
    using POST_shape [of deps req rows] by blast
  then show ?thesis
  proof cases
    case unauthenticated
    then show ?thesis by simp
  next
    case forbidden
    then show ?thesis by simp
  next
    case failed
    have st: "status (responseOf (POST deps req rows)) = 500"
      and bd: "body (responseOf (POST deps req rows)) =
                 JObj [(''error'', JStr ''Failed to generate CRL''), (''details'', JStr msg)]"
      and rw: "rowsOf (POST deps req rows) = logFailure deps req msg rows"
      by (simp_all add: failed caught_def)
    have c3: "rowsOf (POST deps req rows) = rows \<or>
         (\<exists>e msg. rowsOf (POST deps req rows) = rows @ [e] \<and> action e = CRL_GENERATED \<and>
              description e = ''CRL generation failed: '' @ msg)"
    proof -
      from logFailure_cases [of deps req msg rows]
      show ?thesis
      proof
        assume "logFailure deps req msg rows = rows"
        then show ?thesis by (simp add: rw)
      next
        assume "\<exists>s. getApiSession deps req = Returns (Some s) \<and>
            logFailure deps req msg rows = rows @ [failureEntry deps s msg]"
        then obtain s0 where "logFailure deps req msg rows = rows @ [failureEntry deps s0 msg]"
          by blast
        moreover have "action (failureEntry deps s0 msg) = CRL_GENERATED"
          "description (failureEntry deps s0 msg) = ''CRL generation failed: '' @ msg"
          by (simp_all add: failureEntry_def)
        ultimately show ?thesis unfolding rw by blast
      qed
    qed
    have c4: "getApiSession deps req = Returns (Some s) \<longrightarrow>
         (\<exists>msg. body (responseOf (POST deps req rows)) =
                  JObj [(''error'', JStr ''Failed to generate CRL''), (''details'', JStr msg)] \<and>
               rowsOf (POST deps req rows) =
                 (if auditAccepts deps (failureEntry deps s msg)
                  then rows @ [failureEntry deps s msg] else rows))"
      using bd rw logFailure_session [of deps req s msg rows] by metis
    have c5: "getApiSession deps req = Throws m \<longrightarrow> rowsOf (POST deps req rows) = rows"
      by (simp add: rw logFailure_no_session)
    from c3 c4 c5 show ?thesis unfolding st by simp
  next
    case generated
    have "action (successEntry deps s' d ty) = CRL_GENERATED"
      "description (successEntry deps s' d ty) = d"
      by (simp_all add: successEntry_def)
    with generated(2,3)
    have "\<exists>e. rowsOf (POST deps req rows) = rows @ [e] \<and> action e = CRL_GENERATED \<and>
           (description e = ''Full CRL generated successfully'' \<or>
            description e = ''Delta CRL generated successfully'')"
      by blast
    then show ?thesis unfolding generated(1) by simp
  qed
qed

theorem C1_audit_rows_by_outcome_witness:
  "status (responseOf (POST workingDeps () [])) = 200 \<and>
   (\<exists>e. rowsOf (POST workingDeps () []) = [] @ [e] \<and> action e = CRL_GENERATED) \<and>
   status (responseOf (POST anonymousDeps () [])) = 401 \<and>
   rowsOf (POST anonymousDeps () []) = [] \<and>
   status (responseOf (POST pickyDeps () [])) = 500 \<and>
   \<not> auditAccepts pickyDeps
       (successEntry pickyDeps crlManager ''Full CRL generated successfully'' (JStr ''full'')) \<and>
   (\<exists>msg. auditAccepts pickyDeps (failureEntry pickyDeps crlManager msg) \<and>
      rowsOf (POST pickyDeps () []) = [] @ [failureEntry pickyDeps crlManager msg]) \<and>
   status (responseOf (POST throwingSessionDeps () [])) = 500 \<and>
   rowsOf (POST throwingSessionDeps () []) = []"
proof -
  have th: "getApiSession throwingSessionDeps () = Throws ''session store unavailable''"
    by (simp add: throwingSessionDeps_def)
  then have ts: "status (responseOf (POST throwingSessionDeps () [])) = 500"
    by (simp add: POST_def caught_def)
  from C1_audit_rows_by_outcome
         [of throwingSessionDeps "()" "[]" _ "''session store unavailable''"] th ts
  have 4: "rowsOf (POST throwingSessionDeps () []) = []"
    by blast
  have w: "status (responseOf (POST workingDeps () [])) = 200"
    by (simp add: POST_working)
  have n: "status (responseOf (POST anonymousDeps () [])) = 401"
    by (simp add: POST_anonymous)
  have f: "status (responseOf (POST pickyDeps () [])) = 500"
    by (simp add: POST_picky)
  have s: "getApiSession pickyDeps () = Returns (Some crlManager)"
    by (simp add: pickyDeps_def workingDeps_def)
  have rej: "\<not> auditAccepts pickyDeps
       (successEntry pickyDeps crlManager ''Full CRL generated successfully'' (JStr ''full''))"
    by (simp add: pickyDeps_def workingDeps_def successEntry_def)
  have acc: "auditAccepts pickyDeps (failureEntry pickyDeps crlManager msg)" for msg
    by (simp add: pickyDeps_def workingDeps_def failureEntry_def)
  from C1_audit_rows_by_outcome [of workingDeps "()" "[]"] w
  have 1: "\<exists>e. rowsOf (POST workingDeps () []) = [] @ [e] \<and> action e = CRL_GENERATED"
    by blast
  from C1_audit_rows_by_outcome [of anonymousDeps "()" "[]"] n
  have 2: "rowsOf (POST anonymousDeps () []) = []"
    by blast
  from C1_audit_rows_by_outcome [of pickyDeps "()" "[]" crlManager] f s
  obtain msg where "rowsOf (POST pickyDeps () []) =
      (if auditAccepts pickyDeps (failureEntry pickyDeps crlManager msg)
       then [] @ [failureEntry pickyDeps crlManager msg] else [])"
    by blast
  with acc have 3: "\<exists>msg. auditAccepts pickyDeps (failureEntry pickyDeps crlManager msg) \<and>
      rowsOf (POST pickyDeps () []) = [] @ [failureEntry pickyDeps crlManager msg]"
    by auto
  from w n f rej 1 2 3 4 ts show ?thesis by blast
qed

section \<open>Dispatch on the type of CRL\<close>

text \<open>
  C9, as stated, fails: a request that omits \<open>type\<close> does not always lead to a full CRL.
  Without a session the handler answers 401 and calls no generator; with a session that
  holds \<open>crl:manage\<close> and the body \<open>null\<close>, which has no \<open>type\<close>, it answers 500 and calls
  no generator either.
\<close>

theorem C9_no_generator_called_counterexample:
  "requestJson anonymousDeps () = Returns (JObj [(''caId'', JStr ''ca1'')]) \<and>
   getProp (JObj [(''caId'', JStr ''ca1'')]) ''type'' = None \<and>
   POST anonymousDeps () [] = (\<lparr>status = 401, body = errorBody ''Unauthorized''\<rparr>, [], []) \<and>
   requestJson nullBodyDeps () = Returns JNull \<and>
   getProp JNull ''type'' = None \<and>
   status (responseOf (POST nullBodyDeps () [])) = 500 \<and>
   callsOf (POST nullBodyDeps () []) = []"
  by (simp add: POST_anonymous POST_nullBody) (simp add: anonymousDeps_def nullBodyDeps_def
      workingDeps_def)

text \<open>
  C9, amended. For a request made with a session that holds \<open>crl:manage\<close> and whose body
  parses to a value other than \<open>null\<close>: when \<open>type\<close> is absent or is anything but the
  string \<open>delta\<close>, the handler calls \<open>generateCRL\<close> with the body's \<open>caId\<close>, and only it; it
  answers 200 with the CRL that \<open>generateCRL\<close> returned when the audit sink accepts the
  success row, and 500 with the message of \<open>generateCRL\<close> when it throws; and the whole run
  is the same whatever \<open>generateDeltaCRL\<close> would do. When \<open>type\<close> is exactly \<open>delta\<close> the
  same holds with the two generators exchanged. For any request, \<open>generateDeltaCRL\<close> is
  called only when \<open>type\<close> is exactly \<open>delta\<close>. A request without such a session, or whose
  body does not parse or is \<open>null\<close>, calls neither generator, and its run is the same
  whatever the generators would do.
\<close>

theorem C9_type_selects_generator:
  "(getApiSession deps req = Returns (Some s) \<and>
    ''crl:manage'' \<in> set (permissions (session_user s)) \<and>
    requestJson deps req = Returns b \<and> b \<noteq> JNull \<longrightarrow>
      (getProp b ''type'' \<noteq> Some (JStr ''delta'') \<longrightarrow>
         callsOf (POST deps req rows) = [GenerateCRL (getProp b ''caId'')] \<and>
         (\<forall>crl. generateCRL deps (getProp b ''caId'') = Returns crl \<and>
               auditAccepts deps
                 (successEntry deps s ''Full CRL generated successfully''
                    (case getProp b ''type'' of None \<Rightarrow> JStr ''full'' | Some v \<Rightarrow> v)) \<longrightarrow>
             responseOf (POST deps req rows) =
               \<lparr>status = 200,
                body = JObj [(''success'', JBool True),
                             (''message'', JStr ''Full CRL generated successfully''),
                             (''crl'', JStr crl),
                             (''type'', (case getProp b ''type'' of
                                           None \<Rightarrow> JStr ''full'' | Some v \<Rightarrow> v))]\<rparr>) \<and>
         (\<forall>msg. generateCRL deps (getProp b ''caId'') = Throws msg \<longrightarrow>
             responseOf (POST deps req rows) =
               \<lparr>status = 500,
                body = JObj [(''error'', JStr ''Failed to generate CRL''),
                             (''details'', JStr msg)]\<rparr>) \<and>
         (\<forall>h. POST (deps\<lparr>generateDeltaCRL := h\<rparr>) req rows = POST deps req rows)) \<and>
      (getProp b ''type'' = Some (JStr ''delta'') \<longrightarrow>
         callsOf (POST deps req rows) = [GenerateDeltaCRL (getProp b ''caId'')] \<and>
         (\<forall>crl. generateDeltaCRL deps (getProp b ''caId'') = Returns crl \<and>
               auditAccepts deps
                 (successEntry deps s ''Delta CRL generated successfully'' (JStr ''delta'')) \<longrightarrow>
             responseOf (POST deps req rows) =
               \<lparr>status = 200,
                body = JObj [(''success'', JBool True),
                             (''message'', JStr ''Delta CRL generated successfully''),
                             (''crl'', JStr crl), (''type'', JStr ''delta'')]\<rparr>) \<and>
         (\<forall>msg. generateDeltaCRL deps (getProp b ''caId'') = Throws msg \<longrightarrow>
             responseOf (POST deps req rows) =
               \<lparr>status = 500,
                body = JObj [(''error'', JStr ''Failed to generate CRL''),
                             (''details'', JStr msg)]\<rparr>) \<and>
         (\<forall>g. POST (deps\<lparr>generateCRL := g\<rparr>) req rows = POST deps req rows)))
   \<and> (GenerateDeltaCRL c \<in> set (callsOf (POST deps req rows)) \<longrightarrow>
        (\<exists>b. requestJson deps req = Returns b \<and> getProp b ''type'' = Some (JStr ''delta'')))
   \<and> ((\<forall>s. getApiSession deps req = Returns (Some s) \<longrightarrow>
             ''crl:manage'' \<notin> set (permissions (session_user s)))
        \<or> (\<exists>m. requestJson deps req = Throws m)
        \<or> requestJson deps req = Returns JNull \<longrightarrow>
          callsOf (POST deps req rows) = [] \<and>
          (\<forall>g h. POST (deps\<lparr>generateCRL := g, generateDeltaCRL := h\<rparr>) req rows =
                   POST deps req rows))"
proof (intro conjI impI)
  assume a: "getApiSession deps req = Returns (Some s) \<and>
    ''crl:manage'' \<in> set (permissions (session_user s)) \<and>
    requestJson deps req = Returns b \<and> b \<noteq> JNull"
  then have a': "getApiSession deps req = Returns (Some s)"
    "''crl:manage'' \<in> set (permissions (session_user s))"
    "requestJson deps req = Returns b" "b \<noteq> JNull"
    by simp_all
  {
    assume t: "getProp b ''type'' \<noteq> Some (JStr ''delta'')"
    note p = POST_full [OF a' t, of rows]
    show "callsOf (POST deps req rows) = [GenerateCRL (getProp b ''caId'')]"
      by (simp add: p calls_of_caught split: outcome.splits)
    show "\<forall>crl. generateCRL deps (getProp b ''caId'') = Returns crl \<and>
               auditAccepts deps
                 (successEntry deps s ''Full CRL generated successfully''
                    (case getProp b ''type'' of None \<Rightarrow> JStr ''full'' | Some v \<Rightarrow> v)) \<longrightarrow>
             responseOf (POST deps req rows) =
               \<lparr>status = 200,
                body = JObj [(''success'', JBool True),
                             (''message'', JStr ''Full CRL generated successfully''),
                             (''crl'', JStr crl),
                             (''type'', (case getProp b ''type'' of
                                           None \<Rightarrow> JStr ''full'' | Some v \<Rightarrow> v))]\<rparr>"
      by (simp add: p AuditService_log_def)
    show "\<forall>msg. generateCRL deps (getProp b ''caId'') = Throws msg \<longrightarrow>
             responseOf (POST deps req rows) =
               \<lparr>status = 500,
                body = JObj [(''error'', JStr ''Failed to generate CRL''),
                             (''details'', JStr msg)]\<rparr>"
      by (simp add: p caught_def)
    show "\<forall>h. POST (deps\<lparr>generateDeltaCRL := h\<rparr>) req rows = POST deps req rows"
      using POST_full_ignores_delta [OF a' t] by blast
  }
  {
    assume t: "getProp b ''type'' = Some (JStr ''delta'')"
    note p = POST_delta [OF a' t, of rows]
    show "callsOf (POST deps req rows) = [GenerateDeltaCRL (getProp b ''caId'')]"
      by (simp add: p calls_of_caught split: outcome.splits)
    show "\<forall>crl. generateDeltaCRL deps (getProp b ''caId'') = Returns crl \<and>
               auditAccepts deps
                 (successEntry deps s ''Delta CRL generated successfully'' (JStr ''delta'')) \<longrightarrow>
             responseOf (POST deps req rows) =
               \<lparr>status = 200,
                body = JObj [(''success'', JBool True),
                             (''message'', JStr ''Delta CRL generated successfully''),
                             (''crl'', JStr crl), (''type'', JStr ''delta'')]\<rparr>"
      by (simp add: p AuditService_log_def)
    show "\<forall>msg. generateDeltaCRL deps (getProp b ''caId'') = Throws msg \<longrightarrow>
             responseOf (POST deps req rows) =
               \<lparr>status = 500,
                body = JObj [(''error'', JStr ''Failed to generate CRL''),
                             (''details'', JStr msg)]\<rparr>"
      by (simp add: p caught_def)
    show "\<forall>g. POST (deps\<lparr>generateCRL := g\<rparr>) req rows = POST deps req rows"
      using POST_delta_ignores_full [OF a' t] by blast
  }
next
  assume "GenerateDeltaCRL c \<in> set (callsOf (POST deps req rows))"
  then show "\<exists>b. requestJson deps req = Returns b \<and> getProp b ''type'' = Some (JStr ''delta'')"
    by (rule POST_delta_only)
next
  assume r: "(\<forall>s. getApiSession deps req = Returns (Some s) \<longrightarrow>
             ''crl:manage'' \<notin> set (permissions (session_user s)))
        \<or> (\<exists>m. requestJson deps req = Throws m)
        \<or> requestJson deps req = Returns JNull"
  show "callsOf (POST deps req rows) = []"
    using POST_before_dispatch [OF r] by blast
  show "\<forall>g h. POST (deps\<lparr>generateCRL := g, generateDeltaCRL := h\<rparr>) req rows =
                   POST deps req rows"
    using POST_before_dispatch [OF r] by blast
qed

theorem C9_type_selects_generator_witness:
  "responseOf (POST workingDeps () []) =
     \<lparr>status = 200,
      body = JObj [(''success'', JBool True),
                   (''message'', JStr ''Full CRL generated successfully''),
                   (''crl'', JStr ''full-crl''), (''type'', JStr ''full'')]\<rparr> \<and>
   callsOf (POST upperDeps () []) = [GenerateCRL (Some (JStr ''ca1''))] \<and>
   responseOf (POST deltaDeps () []) =
     \<lparr>status = 200,
      body = JObj [(''success'', JBool True),
                   (''message'', JStr ''Delta CRL generated successfully''),
                   (''crl'', JStr ''delta-crl''), (''type'', JStr ''delta'')]\<rparr> \<and>
   responseOf (POST failingDeps () []) =
     \<lparr>status = 500,
      body = JObj [(''error'', JStr ''Failed to generate CRL''),
                   (''details'', JStr ''CA not found'')]\<rparr> \<and>
   callsOf (POST anonymousDeps () []) = [] \<and>
   callsOf (POST deltaDeps () []) = [GenerateDeltaCRL (Some (JStr ''ca1''))] \<and>
   (\<exists>b. requestJson deltaDeps () = Returns b \<and> getProp b ''type'' = Some (JStr ''delta''))"
proof -
  have s: "getApiSession workingDeps () = Returns (Some crlManager)"
    "getApiSession upperDeps () = Returns (Some crlManager)"
    "getApiSession deltaDeps () = Returns (Some crlManager)"
    "getApiSession failingDeps () = Returns (Some crlManager)"
    by (simp_all add: workingDeps_def upperDeps_def deltaDeps_def failingDeps_def)
  have p: "''crl:manage'' \<in> set (permissions (session_user crlManager))"
    by (simp add: crlManager_def)
  have b: "requestJson workingDeps () = Returns (JObj [(''caId'', JStr ''ca1'')])"
    "requestJson failingDeps () = Returns (JObj [(''caId'', JStr ''ca1'')])"
    "requestJson upperDeps () =
       Returns (JObj [(''type'', JStr ''DELTA''), (''caId'', JStr ''ca1'')])"
    "requestJson deltaDeps () =
       Returns (JObj [(''type'', JStr ''delta''), (''caId'', JStr ''ca1'')])"
    by (simp_all add: workingDeps_def upperDeps_def deltaDeps_def failingDeps_def)
  have g: "generateCRL workingDeps (Some (JStr ''ca1'')) = Returns ''full-crl''"
    "generateDeltaCRL deltaDeps (Some (JStr ''ca1'')) = Returns ''delta-crl''"
    "generateCRL failingDeps (Some (JStr ''ca1'')) = Throws ''CA not found''"
    "auditAccepts workingDeps e" "auditAccepts deltaDeps e" for e
    by (simp_all add: workingDeps_def deltaDeps_def failingDeps_def)
  have n: "\<forall>s. getApiSession anonymousDeps () = Returns (Some s) \<longrightarrow>
      ''crl:manage'' \<notin> set (permissions (session_user s))"
    by (simp add: anonymousDeps_def workingDeps_def)
  from C9_type_selects_generator
         [of workingDeps "()" crlManager "JObj [(''caId'', JStr ''ca1'')]" "[]"] s p b g
  have 1: "responseOf (POST workingDeps () []) =
     \<lparr>status = 200,
      body = JObj [(''success'', JBool True),
                   (''message'', JStr ''Full CRL generated successfully''),
                   (''crl'', JStr ''full-crl''), (''type'', JStr ''full'')]\<rparr>"
    by simp
  from C9_type_selects_generator
         [of upperDeps "()" crlManager
             "JObj [(''type'', JStr ''DELTA''), (''caId'', JStr ''ca1'')]" "[]"] s p b
  have 2: "callsOf (POST upperDeps () []) = [GenerateCRL (Some (JStr ''ca1''))]"
    by simp
  from C9_type_selects_generator
         [of deltaDeps "()" crlManager
             "JObj [(''type'', JStr ''delta''), (''caId'', JStr ''ca1'')]" "[]"] s p b g
  have 3: "responseOf (POST deltaDeps () []) =
     \<lparr>status = 200,
      body = JObj [(''success'', JBool True),
                   (''message'', JStr ''Delta CRL generated successfully''),
                   (''crl'', JStr ''delta-crl''), (''type'', JStr ''delta'')]\<rparr>"
    by simp
  from C9_type_selects_generator
         [of failingDeps "()" crlManager "JObj [(''caId'', JStr ''ca1'')]" "[]"] s p b g
  have 4: "responseOf (POST failingDeps () []) =
     \<lparr>status = 500,
      body = JObj [(''error'', JStr ''Failed to generate CRL''),
                   (''details'', JStr ''CA not found'')]\<rparr>"
    by simp
  from C9_type_selects_generator [of anonymousDeps "()" _ _ "[]"] n
  have 5: "callsOf (POST anonymousDeps () []) = []"
    by blast
  from C9_type_selects_generator
         [of deltaDeps "()" crlManager
             "JObj [(''type'', JStr ''delta''), (''caId'', JStr ''ca1'')]" "[]"] s p b
  have 6: "callsOf (POST deltaDeps () []) = [GenerateDeltaCRL (Some (JStr ''ca1''))]"
    by simp
  then have "GenerateDeltaCRL (Some (JStr ''ca1'')) \<in> set (callsOf (POST deltaDeps () []))"
    by simp
  with C9_type_selects_generator [of deltaDeps "()" _ _ "[]" "Some (JStr ''ca1'')"]
  have 7: "\<exists>b. requestJson deltaDeps () = Returns b \<and>
      getProp b ''type'' = Some (JStr ''delta'')"
    by blast
  from 1 2 3 4 5 6 7 show ?thesis by simp
qed

section \<open>Deleting a CA\<close>



















section \<open>Reading a CA\<close>
















lemma find_map_key:
  "find (\<lambda>ca. ca_id ca = i) (map (\<lambda>ca. ca\<lparr>encryptedPrivateKey := k ca\<rparr>) cas) =
     map_option (\<lambda>ca. ca\<lparr>encryptedPrivateKey := k ca\<rparr>) (find (\<lambda>ca. ca_id ca = i) cas)"
  by (induction cas) auto

lemma detailsOf_key: "detailsOf deps (ca\<lparr>encryptedPrivateKey := x\<rparr>) = detailsOf deps ca"
  by (simp add: detailsOf_def certInfoOf_def chainInfoOf_def)

text \<open>
  C10: the answer of \<open>GET\<close> is the same whatever private keys the stored CAs hold: replacing
  the \<open>encryptedPrivateKey\<close> of every CA row by any other value leaves the response, status
  and payload, as it was. The payload of a 200 answer is the record \<open>ca_details\<close>, whose
  fields are the sixteen that the handler enumerates; none of them is computed from the key.
\<close>

theorem C10_details_independent_of_private_key:
  "GET deps i (st\<lparr>caConfigs := map (\<lambda>ca. ca\<lparr>encryptedPrivateKey := k ca\<rparr>) (caConfigs st)\<rparr>)
     = GET deps i st"
  by (simp add: GET_def findCA_def find_map_key detailsOf_key
      split: outcome.splits option.splits)

section \<open>Revocation and issuance\<close>

lemma parseReason_reasonCode: "parseReason (reasonCode r) = Some r"
  by (cases r) (simp_all add: parseReason_def revocationReasons_def)

lemma findCertificate_revoked_demo: "findCertificate demoStore ''c2'' = Some revokedCert"
  by (simp add: findCertificate_def demoStore_def activeCert_def revokedCert_def)

lemma operator_capability: "atLeastOperator (session_user crlManager)"
  by (simp add: atLeastOperator_def crlManager_def)

lemma viewer_capability: "\<not> atLeastOperator viewer"
  by (simp add: atLeastOperator_def viewer_def)

lemma revoke_failed_unchanged:
  "findCertificate st cid = None \<or>
   (\<exists>c. findCertificate st cid = Some c \<and> cert_status c = REVOKED) \<Longrightarrow>
     snd (revoke actor now cid rsn st) = st \<and> (\<exists>e. fst (revoke actor now cid rsn st) = Inl e)"
  by (auto simp: revoke_def split: option.splits)

text \<open>
  C2: for a certificate whose status is REVOKED, \<open>revoke\<close> by a caller who holds the
  capability (at least OPERATOR), with any of the enumerated reasons, fails with
  AlreadyRevokedError; a caller below OPERATOR is rejected with the authorization error.
  Whoever calls, and whatever reason is given, the call fails and the store is returned as
  it was: the CertificateRevocation rows, with their reasons, and the AuditLog rows are
  those of before.
\<close>

theorem C2_revoke_already_revoked:
  "findCertificate st cid = Some c \<Longrightarrow> cert_status c = REVOKED \<Longrightarrow>
     (atLeastOperator actor \<longrightarrow>
        revoke actor now cid (reasonCode r) st = (Inl AlreadyRevokedError, st)) \<and>
     (\<not> atLeastOperator actor \<longrightarrow>
        revoke actor now cid rsn st = (Inl AuthorizationError, st)) \<and>
     (\<exists>e. fst (revoke actor now cid rsn st) = Inl e) \<and>
     snd (revoke actor now cid rsn st) = st \<and>
     certificateRevocations (snd (revoke actor now cid rsn st)) = certificateRevocations st \<and>
     auditLogs (snd (revoke actor now cid rsn st)) = auditLogs st"
  using revoke_failed_unchanged [of st cid actor now rsn]
  by (simp add: revoke_def parseReason_reasonCode)

theorem C2_revoke_already_revoked_witness:
  "findCertificate demoStore ''c2'' = Some revokedCert \<and> cert_status revokedCert = REVOKED \<and>
   atLeastOperator (session_user crlManager) \<and>
   revoke (session_user crlManager) 900 ''c2'' ''KEY_COMPROMISE'' demoStore =
     (Inl AlreadyRevokedError, demoStore) \<and>
   revoke viewer 900 ''c2'' ''KEY_COMPROMISE'' demoStore = (Inl AuthorizationError, demoStore) \<and>
   map reason (certificateRevocations
     (snd (revoke (session_user crlManager) 900 ''c2'' ''KEY_COMPROMISE'' demoStore))) =
     [UNSPECIFIED]"
proof -
  have b: "cert_status revokedCert = REVOKED"
    by (simp add: revokedCert_def)
  have r: "certificateRevocations demoStore =
      [\<lparr>certificateId = ''c2'', reason = UNSPECIFIED, revokedAt = 500, revokedById = ''u1''\<rparr>]"
    by (simp add: demoStore_def)
  from C2_revoke_already_revoked
         [OF findCertificate_revoked_demo b, of "session_user crlManager" 900 KEY_COMPROMISE
            "''KEY_COMPROMISE''"]
       C2_revoke_already_revoked
         [OF findCertificate_revoked_demo b, of viewer 900 KEY_COMPROMISE "''KEY_COMPROMISE''"]
       findCertificate_revoked_demo b r operator_capability viewer_capability
  show ?thesis by simp
qed

text \<open>
  C4: for a certificateId that no Certificate row carries, \<open>revoke\<close> by a caller who holds
  the capability (at least OPERATOR), with any of the enumerated reasons, fails with
  NotFoundError; a caller below OPERATOR is rejected with the authorization error. Whoever
  calls, and whatever reason is given, the call fails and the store is returned as it was:
  no CertificateRevocation row is created.
\<close>

theorem C4_revoke_unknown_certificate:
  "findCertificate st cid = None \<Longrightarrow>
     (atLeastOperator actor \<longrightarrow>
        revoke actor now cid (reasonCode r) st = (Inl NotFoundError, st)) \<and>
     (\<not> atLeastOperator actor \<longrightarrow>
        revoke actor now cid rsn st = (Inl AuthorizationError, st)) \<and>
     (\<exists>e. fst (revoke actor now cid rsn st) = Inl e) \<and>
     snd (revoke actor now cid rsn st) = st \<and>
     certificateRevocations (snd (revoke actor now cid rsn st)) = certificateRevocations st"
  using revoke_failed_unchanged [of st cid actor now rsn]
  by (simp add: revoke_def parseReason_reasonCode)

theorem C4_revoke_unknown_certificate_witness:
  "findCertificate demoStore ''does-not-exist'' = None \<and>
   atLeastOperator (session_user crlManager) \<and>
   revoke (session_user crlManager) 900 ''does-not-exist'' ''UNSPECIFIED'' demoStore =
     (Inl NotFoundError, demoStore) \<and>
   revoke viewer 900 ''does-not-exist'' ''UNSPECIFIED'' demoStore =
     (Inl AuthorizationError, demoStore)"
proof -
  have a: "findCertificate demoStore ''does-not-exist'' = None"
    by (simp add: findCertificate_def demoStore_def activeCert_def revokedCert_def
        otherCert_def)
  from C4_revoke_unknown_certificate
         [OF a, of "session_user crlManager" 900 UNSPECIFIED "''UNSPECIFIED''"]
       C4_revoke_unknown_certificate [OF a, of viewer 900 UNSPECIFIED "''UNSPECIFIED''"]
       a operator_capability viewer_capability
  show ?thesis by simp
qed

text \<open>
  C5: an issuance request whose commonName is empty, from a caller who holds the capability
  (at least OPERATOR), fails with a ValidationError, the one for the common name; from a
  caller below OPERATOR it is rejected with the authorization error. Whoever calls, the
  call fails and the store is returned as it was: no Certificate row and no AuditLog row,
  CERTIFICATE_ISSUED or other, is created.
\<close>

theorem C5_issue_empty_common_name:
  "req_commonName req = [] \<Longrightarrow>
     (atLeastOperator actor \<longrightarrow>
        issue deps actor now ca req st = (Inl (ValidationError CommonNameEmpty), st)) \<and>
     (\<not> atLeastOperator actor \<longrightarrow>
        issue deps actor now ca req st = (Inl AuthorizationError, st)) \<and>
     (\<exists>e. fst (issue deps actor now ca req st) = Inl e) \<and>
     snd (issue deps actor now ca req st) = st \<and>
     certificates (snd (issue deps actor now ca req st)) = certificates st \<and>
     auditLogs (snd (issue deps actor now ca req st)) = auditLogs st"
  by (simp add: issue_def validate_def)

theorem C5_issue_empty_common_name_witness:
  "req_commonName emptyNameRequest = [] \<and>
   atLeastOperator (session_user crlManager) \<and>
   issue demoIssueDeps (session_user crlManager) 0 demoCA emptyNameRequest demoStore =
     (Inl (ValidationError CommonNameEmpty), demoStore) \<and>
   issue demoIssueDeps viewer 0 demoCA emptyNameRequest demoStore =
     (Inl AuthorizationError, demoStore)"
proof -
  have a: "req_commonName emptyNameRequest = []"
    by (simp add: emptyNameRequest_def)
  from C5_issue_empty_common_name
         [OF a, of "session_user crlManager" demoIssueDeps 0 demoCA demoStore]
       C5_issue_empty_common_name [OF a, of viewer demoIssueDeps 0 demoCA demoStore]
       a operator_capability viewer_capability
  show ?thesis by simp
qed

text \<open>
  The modelled operations do succeed on well-formed input from a caller who holds the
  capability: a first revocation of an existing certificate goes through and a second one
  then fails, and a request with a common name is issued for the requested number of days.
\<close>

lemma find_map_revoked:
  "find (\<lambda>x. cert_id x = cid)
     (map (\<lambda>x. if cert_id x = cid then x\<lparr>cert_status := REVOKED\<rparr> else x) cs) =
   map_option (\<lambda>x. x\<lparr>cert_status := REVOKED\<rparr>) (find (\<lambda>x. cert_id x = cid) cs)"
  by (induction cs) auto

lemma revoke_twice:
  assumes "findCertificate st cid = Some c" and "cert_status c \<noteq> REVOKED"
    and "atLeastOperator actor" and "atLeastOperator actor'"
  shows "\<exists>rev st'. revoke actor now cid (reasonCode r) st = (Inr rev, st') \<and>
           reason rev = r \<and>
           revoke actor' now' cid (reasonCode r') st' = (Inl AlreadyRevokedError, st')"
proof -
  define rev where
    "rev = \<lparr>certificateId = cid, reason = r, revokedAt = now, revokedById = user_id actor\<rparr>"
  define st' where
    "st' = st\<lparr>certificateRevocations := certificateRevocations st @ [rev],
              certificates :=
                map (\<lambda>x. if cert_id x = cid then x\<lparr>cert_status := REVOKED\<rparr> else x)
                  (certificates st),
              auditLogs := auditLogs st @ [revokedEntry actor c r]\<rparr>"
  have first: "revoke actor now cid (reasonCode r) st = (Inr rev, st')"
    using assms by (simp add: revoke_def parseReason_reasonCode rev_def st'_def Let_def)
  have "findCertificate st' cid = Some (c\<lparr>cert_status := REVOKED\<rparr>)"
    using assms(1) by (simp add: findCertificate_def st'_def find_map_revoked)
  then have second: "revoke actor' now' cid (reasonCode r') st' = (Inl AlreadyRevokedError, st')"
    using assms(4) by (simp add: revoke_def parseReason_reasonCode)
  from first second show ?thesis by (auto simp: rev_def)
qed

lemma issue_named_demo:
  "\<exists>enc row. fst (issue demoIssueDeps (session_user crlManager) 0 demoCA namedRequest demoStore)
       = Inr (enc, row) \<and>
     commonName row = ''a.example.com'' \<and> validTo row - validFrom row = 365 * msPerDay"
  by (simp add: issue_def validate_def demoIssueDeps_def namedRequest_def emptyNameRequest_def
      demoCA_def remainingValidityDays_def msPerDay_def demoStore_def activeCert_def
      revokedCert_def otherCert_def assemble_def Let_def numeral_3_eq_3 operator_capability)

end
